theory Spec2Isabelle
  imports Complex_Main
begin

section \<open>JavaScript strings\<close>

text \<open>
  A JavaScript string is a sequence of UTF-16 code units. The mock data of
  \<^verbatim>\<open>aiProvider.ts\<close> holds a code unit above 255, so a string is a list of
  natural numbers (each below 65536 in every string the program handles) and
  \<open>str\<close> turns an ASCII literal into its code units.
\<close>

type_synonym jsstring = "nat list"

definition str :: "string \<Rightarrow> jsstring" where
  "str s = map of_char s"

text \<open>
  \<^verbatim>\<open>String.prototype.toLowerCase\<close> on the Basic Latin and Latin-1 Supplement
  blocks (A..Z, and U+00C0..U+00DE without the multiplication sign U+00D7);
  the rest of the Unicode case table belongs to the runtime and is left
  unchanged here.
\<close>

definition lowerUnit :: "nat \<Rightarrow> nat" where
  "lowerUnit c =
     (if 65 \<le> c \<and> c \<le> 90 then c + 32
      else if 192 \<le> c \<and> c \<le> 222 \<and> c \<noteq> 215 then c + 32
      else c)"

definition toLowerCase :: "jsstring \<Rightarrow> jsstring" where
  "toLowerCase s = map lowerUnit s"

text \<open>Truthiness of a string value that may be \<^verbatim>\<open>undefined\<close> or \<^verbatim>\<open>null\<close>.\<close>

fun truthy :: "jsstring option \<Rightarrow> bool" where
  "truthy None = False"
| "truthy (Some s) = (s \<noteq> [])"

text \<open>\<^verbatim>\<open>String(n)\<close> for a non-negative integer: its decimal digits.\<close>

fun decimal :: "nat \<Rightarrow> jsstring" where
  "decimal n = (if n < 10 then [48 + n] else decimal (n div 10) @ [48 + n mod 10])"

section \<open>Errors\<close>

text \<open>
  Every \<^verbatim>\<open>throw\<close> of the program is a value: \<open>Error m\<close> is
  \<^verbatim>\<open>new Error(m)\<close>, \<open>SyntaxError\<close> is what \<^verbatim>\<open>JSON.parse\<close> throws,
  \<open>TypeError\<close> is a failed property access or destructuring, and
  \<open>HostError m\<close> is an error object produced by the runtime (a rejected
  fetch, a failed spawn, a failed \<^verbatim>\<open>execSync\<close>) with message \<open>m\<close>.
\<close>

datatype js_error =
    Error jsstring
  | SyntaxError
  | TypeError
  | HostError jsstring

section \<open>The regular expression \<^verbatim>\<open>/\{[\s\S]*\}/\<close>\<close>

definition lbrace :: nat where "lbrace = 123"
definition rbrace :: nat where "rbrace = 125"

text \<open>
  \<open>greedy_to_rbrace cs\<close> is what \<^verbatim>\<open>[\s\S]*\}\<close> matches at the start of
  \<open>cs\<close>: the star takes every code unit and backtracks to the last closing
  brace, so the result is the longest prefix of \<open>cs\<close> that ends in one.
\<close>

fun greedy_to_rbrace :: "jsstring \<Rightarrow> jsstring option" where
  "greedy_to_rbrace [] = None"
| "greedy_to_rbrace (c # cs) =
     (case greedy_to_rbrace cs of
        Some m \<Rightarrow> Some (c # m)
      | None \<Rightarrow> if c = rbrace then Some [c] else None)"

text \<open>
  \<open>regex_match text\<close> is \<^verbatim>\<open>text.match(/\{[\s\S]*\}/)\<close>: start positions
  are tried from left to right, \<open>None\<close> is \<^verbatim>\<open>null\<close> and \<open>Some m\<close> is
  the matched text \<^verbatim>\<open>jsonMatch[0]\<close>.
\<close>

fun regex_match :: "jsstring \<Rightarrow> jsstring option" where
  "regex_match [] = None"
| "regex_match (c # cs) =
     (if c = lbrace then
        (case greedy_to_rbrace cs of
           Some m \<Rightarrow> Some (c # m)
         | None \<Rightarrow> regex_match cs)
      else regex_match cs)"

section \<open>\<^verbatim>\<open>JSON.parse\<close>\<close>

text \<open>
  The values \<^verbatim>\<open>JSON.parse\<close> builds. A number keeps its exact decimal value
  (the rounding to a double is not modelled); an object keeps its members in
  the order of the text.
\<close>

datatype json =
    JNull
  | JBool bool
  | JNumber rat
  | JString jsstring
  | JArray "json list"
  | JObject "(jsstring \<times> json) list"

definition is_ws :: "nat \<Rightarrow> bool" where
  "is_ws c = (c = 32 \<or> c = 9 \<or> c = 10 \<or> c = 13)"

definition skip_ws :: "jsstring \<Rightarrow> jsstring" where
  "skip_ws cs = dropWhile is_ws cs"

definition is_digit :: "nat \<Rightarrow> bool" where
  "is_digit c = (48 \<le> c \<and> c \<le> 57)"

definition digits_value :: "jsstring \<Rightarrow> nat" where
  "digits_value ds = foldl (\<lambda>acc d. 10 * acc + (d - 48)) 0 ds"

definition hex_value :: "nat \<Rightarrow> nat option" where
  "hex_value c =
     (if is_digit c then Some (c - 48)
      else if 97 \<le> c \<and> c \<le> 102 then Some (c - 87)
      else if 65 \<le> c \<and> c \<le> 70 then Some (c - 55)
      else None)"

definition hex4 :: "nat \<Rightarrow> nat \<Rightarrow> nat \<Rightarrow> nat \<Rightarrow> nat option" where
  "hex4 a b c d =
     (case (hex_value a, hex_value b, hex_value c, hex_value d) of
        (Some w, Some x, Some y, Some z) \<Rightarrow> Some (4096 * w + 256 * x + 16 * y + z)
      | _ \<Rightarrow> None)"

text \<open>The single-character escapes: quote, backslash, slash, b, f, n, r, t.\<close>

definition unescape :: "nat \<Rightarrow> nat option" where
  "unescape e =
     (if e = 34 then Some 34
      else if e = 92 then Some 92
      else if e = 47 then Some 47
      else if e = 98 then Some 8
      else if e = 102 then Some 12
      else if e = 110 then Some 10
      else if e = 114 then Some 13
      else if e = 116 then Some 9
      else None)"

definition consed :: "'a \<Rightarrow> ('a list \<times> 'b) option \<Rightarrow> ('a list \<times> 'b) option" where
  "consed x r = map_option (\<lambda>(xs, rest). (x # xs, rest)) r"

text \<open>
  The body of a string after its opening quote: the decoded code units and
  the text after the closing quote. Control characters below U+0020 are
  rejected, as the JSON grammar does.
\<close>

fun parse_string_body :: "jsstring \<Rightarrow> (jsstring \<times> jsstring) option" where
  "parse_string_body [] = None"
| "parse_string_body (c # cs) =
     (if c = 34 then Some ([], cs)
      else if c = 92 then
        (case cs of
           [] \<Rightarrow> None
         | e # cs' \<Rightarrow>
             if e = 117 then
               (case cs' of
                  a # b # c' # d # rest \<Rightarrow>
                    (case hex4 a b c' d of
                       None \<Rightarrow> None
                     | Some u \<Rightarrow> consed u (parse_string_body rest))
                | _ \<Rightarrow> None)
             else
               (case unescape e of
                  None \<Rightarrow> None
                | Some u \<Rightarrow> consed u (parse_string_body cs')))
      else if c < 32 then None
      else consed c (parse_string_body cs))"

text \<open>
  A number: an optional minus, an integer part without a leading zero, an
  optional fraction, an optional exponent.
\<close>

definition parse_int_part :: "jsstring \<Rightarrow> (nat \<times> jsstring) option" where
  "parse_int_part cs =
     (case cs of
        [] \<Rightarrow> None
      | c # rest \<Rightarrow>
          if c = 48 then Some (0, rest)
          else if is_digit c then
            Some (digits_value (takeWhile is_digit cs), dropWhile is_digit cs)
          else None)"

definition parse_frac :: "jsstring \<Rightarrow> (rat \<times> jsstring) option" where
  "parse_frac cs =
     (case cs of
        c # rest \<Rightarrow>
          if c = 46 then
            (let ds = takeWhile is_digit rest in
             if ds = [] then None
             else Some (of_nat (digits_value ds) / 10 ^ length ds, dropWhile is_digit rest))
          else Some (0, cs)
      | [] \<Rightarrow> Some (0, cs))"

definition parse_exp :: "jsstring \<Rightarrow> (rat \<times> jsstring) option" where
  "parse_exp cs =
     (case cs of
        c # rest \<Rightarrow>
          if c = 101 \<or> c = 69 then
            (let neg = (case rest of s # _ \<Rightarrow> s = 45 | [] \<Rightarrow> False);
                 signed = (case rest of s # _ \<Rightarrow> s = 45 \<or> s = 43 | [] \<Rightarrow> False);
                 rest' = (if signed then tl rest else rest);
                 ds = takeWhile is_digit rest' in
             if ds = [] then None
             else Some (if neg then 1 / 10 ^ digits_value ds else 10 ^ digits_value ds,
                        dropWhile is_digit rest'))
          else Some (1, cs)
      | [] \<Rightarrow> Some (1, cs))"

definition parse_number :: "jsstring \<Rightarrow> (json \<times> jsstring) option" where
  "parse_number cs =
     (let neg = (case cs of c # _ \<Rightarrow> c = 45 | [] \<Rightarrow> False);
          cs1 = (if neg then tl cs else cs) in
      case parse_int_part cs1 of
        None \<Rightarrow> None
      | Some (i, cs2) \<Rightarrow>
          (case parse_frac cs2 of
             None \<Rightarrow> None
           | Some (f, cs3) \<Rightarrow>
               (case parse_exp cs3 of
                  None \<Rightarrow> None
                | Some (e, cs4) \<Rightarrow>
                    Some (JNumber ((if neg then - 1 else 1) * (of_nat i + f) * e), cs4))))"

definition parse_literal :: "jsstring \<Rightarrow> (json \<times> jsstring) option" where
  "parse_literal cs =
     (if take 4 cs = str ''true'' then Some (JBool True, drop 4 cs)
      else if take 5 cs = str ''false'' then Some (JBool False, drop 5 cs)
      else if take 4 cs = str ''null'' then Some (JNull, drop 4 cs)
      else None)"

text \<open>
  Values, array elements and object members by recursive descent. The two
  comparisons of lengths serve the termination proof only: a value is never
  parsed from nothing, so they never fail (lemmas \<open>parse_consumes\<close>,
  \<open>parse_elements_eq\<close> and \<open>parse_members_eq\<close> below).
\<close>

function parse_value :: "jsstring \<Rightarrow> (json \<times> jsstring) option"
  and parse_elements :: "jsstring \<Rightarrow> (json list \<times> jsstring) option"
  and parse_members :: "jsstring \<Rightarrow> ((jsstring \<times> json) list \<times> jsstring) option"
where
  "parse_value cs =
     (case skip_ws cs of
        [] \<Rightarrow> None
      | c # rest \<Rightarrow>
          if c = lbrace then
            (case skip_ws rest of
               [] \<Rightarrow> None
             | d # rest' \<Rightarrow>
                 if d = rbrace then Some (JObject [], rest')
                 else map_option (\<lambda>(kvs, r). (JObject kvs, r)) (parse_members rest))
          else if c = 91 then
            (case skip_ws rest of
               [] \<Rightarrow> None
             | d # rest' \<Rightarrow>
                 if d = 93 then Some (JArray [], rest')
                 else map_option (\<lambda>(vs, r). (JArray vs, r)) (parse_elements rest))
          else if c = 34 then
            map_option (\<lambda>(s, r). (JString s, r)) (parse_string_body rest)
          else if c = 45 \<or> is_digit c then parse_number (c # rest)
          else parse_literal (c # rest))"
| "parse_elements cs =
     (case parse_value cs of
        None \<Rightarrow> None
      | Some (v, r) \<Rightarrow>
          if length cs \<le> length r then None
          else
            (case skip_ws r of
               [] \<Rightarrow> None
             | c # r' \<Rightarrow>
                 if c = 44 then consed v (parse_elements r')
                 else if c = 93 then Some ([v], r')
                 else None))"
| "parse_members cs =
     (case skip_ws cs of
        [] \<Rightarrow> None
      | q # r0 \<Rightarrow>
          if q \<noteq> 34 then None
          else
            (case parse_string_body r0 of
               None \<Rightarrow> None
             | Some (k, r1) \<Rightarrow>
                 (case skip_ws r1 of
                    [] \<Rightarrow> None
                  | c # r2 \<Rightarrow>
                      if c \<noteq> 58 then None
                      else
                        (case parse_value r2 of
                           None \<Rightarrow> None
                         | Some (v, r3) \<Rightarrow>
                             if length r2 \<le> length r3 then None
                             else
                               (case skip_ws r3 of
                                  [] \<Rightarrow> None
                                | e # r4 \<Rightarrow>
                                    if e = 44 then consed (k, v) (parse_members r4)
                                    else if e = rbrace then Some ([(k, v)], r4)
                                    else None)))))"
  by pat_completeness auto
termination
proof -
  have ws: "length rest < length cs" if "skip_ws cs = c # rest" for cs c rest
    using that length_dropWhile_le[of is_ws cs] by (simp add: skip_ws_def)
  have body: "length r < length cs" if "parse_string_body cs = Some (s, r)" for cs s r
    using that
  proof (induction cs arbitrary: s r rule: parse_string_body.induct)
    case 1
    then show ?case by simp
  next
    case (2 c cs)
    then show ?case
      by (fastforce simp: consed_def split: if_splits list.splits option.splits)
  qed
  show ?thesis
    by (relation "measure (\<lambda>x. case x of
                     Inl cs \<Rightarrow> 2 * length cs
                   | Inr (Inl cs) \<Rightarrow> 2 * length cs + 1
                   | Inr (Inr cs) \<Rightarrow> 2 * length cs + 1)")
       (auto dest!: ws body)
qed

declare parse_value.simps [simp del] parse_elements.simps [simp del]
  parse_members.simps [simp del]

text \<open>\<open>JSON_parse text\<close> is \<^verbatim>\<open>JSON.parse(text)\<close>; \<open>None\<close> is its SyntaxError.\<close>

definition JSON_parse :: "jsstring \<Rightarrow> json option" where
  "JSON_parse text =
     (case parse_value text of
        None \<Rightarrow> None
      | Some (v, rest) \<Rightarrow> if skip_ws rest = [] then Some v else None)"

section \<open>The command-line tool (\<^verbatim>\<open>src/cli/etymology.ts\<close>)\<close>

text \<open>
  \<^verbatim>\<open>extractJson\<close>: the match, the error when there is none, the parse of
  the matched text.
\<close>

definition extractJson :: "jsstring \<Rightarrow> js_error + json" where
  "extractJson text =
     (case regex_match text of
        None \<Rightarrow> Inl (Error (str ''No valid JSON found in response''))
      | Some m \<Rightarrow>
          (case JSON_parse m of
             None \<Rightarrow> Inl SyntaxError
           | Some v \<Rightarrow> Inr v))"

text \<open>
  A shell command is identified by the values that vary in it:
  \<open>PythonCliCaller model word timeout\<close> is
  \<^verbatim>\<open>python3 "<path>/cli_caller.py" --model .. --prompt ".." --timeout ..\<close>
  and \<open>Which name\<close> is \<^verbatim>\<open>which ${name}\<close>. \<^verbatim>\<open>execSync\<close> takes the command
  and its timeout in milliseconds, if any, and either returns the standard
  output or throws an error object, of which the program reads
  \<^verbatim>\<open>stdout\<close> (the output captured before the failure) and which carries
  \<^verbatim>\<open>code\<close> (\<^verbatim>\<open>ETIMEDOUT\<close> when the process was killed at the timeout),
  the exit \<^verbatim>\<open>status\<close> and a \<^verbatim>\<open>message\<close>.
\<close>

datatype command =
    PythonCliCaller jsstring jsstring int
  | Which jsstring

record exec_failure =
  code :: "jsstring option"
  status :: "nat option"
  stdout :: "jsstring option"
  message :: jsstring

type_synonym shell = "command \<Rightarrow> int option \<Rightarrow> exec_failure + jsstring"

definition timed_out :: "exec_failure \<Rightarrow> bool" where
  "timed_out err = (code err = Some (str ''ETIMEDOUT''))"

text \<open>
  \<^verbatim>\<open>callCliAgent\<close>: the output of the command, or in the catch block the
  \<^verbatim>\<open>stdout\<close> of the error when it is truthy, the error rethrown otherwise.
\<close>

definition callCliAgent :: "shell \<Rightarrow> jsstring \<Rightarrow> jsstring \<Rightarrow> int \<Rightarrow> js_error + jsstring" where
  "callCliAgent sh w mdl secs =
     (case sh (PythonCliCaller mdl w secs) (Some ((secs + 10) * 1000)) of
        Inr output \<Rightarrow> Inr output
      | Inl err \<Rightarrow>
          if truthy (stdout err) then Inr (the (stdout err))
          else Inl (HostError (message err)))"

text \<open>
  \<^verbatim>\<open>main\<close>, for the parsed arguments, up to the call of
  \<^verbatim>\<open>displayResult\<close>: \<open>Inr data\<close> is the data handed to it, \<open>Inl\<close> the
  error that the catch block prints before \<^verbatim>\<open>process.exit(1)\<close>.
\<close>

definition main :: "shell \<Rightarrow> jsstring \<Rightarrow> jsstring \<Rightarrow> int \<Rightarrow> js_error + json" where
  "main sh w mdl secs =
     (case callCliAgent sh w mdl secs of
        Inl e \<Rightarrow> Inl e
      | Inr output \<Rightarrow> extractJson output)"

section \<open>The data model (\<^verbatim>\<open>src/types/index.ts\<close>)\<close>

text \<open>
  The interfaces \<^verbatim>\<open>Coordinates\<close>, \<^verbatim>\<open>Origin\<close>, \<^verbatim>\<open>JourneyStep\<close>,
  \<^verbatim>\<open>WordJourney\<close> and \<^verbatim>\<open>AIProviderConfig\<close>. An optional field is an
  \<open>option\<close>. A \<^verbatim>\<open>number\<close> is an \<open>int\<close> where the program only puts
  integers and a \<open>rat\<close> for the decimal coordinates (longitude, latitude).
  The provider of a configuration is the string the program compares at run
  time.
\<close>

record coordinates =
  name :: jsstring
  countryCode :: jsstring
  coordinates :: "rat \<times> rat"

record origin =
  word :: jsstring
  language :: jsstring
  meaning :: jsstring
  location :: coordinates
  century :: jsstring

datatype route = land | sea

record journeyStep =
  order :: int
  word :: jsstring
  language :: jsstring
  pronunciation :: "jsstring option"
  location :: coordinates
  century :: jsstring
  routeType :: route
  "notes" :: jsstring

record wordJourney =
  word :: jsstring
  currentMeaning :: jsstring
  origin :: origin
  journey :: "journeyStep list"
  narrative :: jsstring
  routeSummary :: jsstring
  funFact :: "jsstring option"

record aiProviderConfig =
  provider :: jsstring
  apiKey :: "jsstring option"
  baseUrl :: "jsstring option"
  model :: "jsstring option"
  timeout :: "int option"
  responseLanguage :: "jsstring option"

text \<open>
  What a fetch routine resolves to. The declared type is \<^verbatim>\<open>WordJourney\<close>,
  but the value is whatever the routine returns: an object literal of the
  mock table, the result of \<^verbatim>\<open>JSON.parse\<close>, or a member of
  \<^verbatim>\<open>Object.prototype\<close> reached through the mock table's prototype chain.
\<close>

datatype js_value =
    Journey wordJourney
  | Parsed json
  | Builtin jsstring

section \<open>The backends (\<^verbatim>\<open>src/services/aiProvider.ts\<close>)\<close>

subsection \<open>Outbound calls\<close>

text \<open>
  Each adapter makes one outbound call. The prompt is a fixed function of the
  word and the language, so a call is identified by the values that vary:
  \<^item> \<open>GeminiGenerate word apiKey language\<close>: \<^verbatim>\<open>model.generateContent\<close>;
  \<^item> \<open>OpenAIChat word apiKey language\<close>: the POST to the chat completions URL;
  \<^item> \<open>AnthropicMessages word apiKey language\<close>: the POST to the messages URL;
  \<^item> \<open>OllamaGenerate word baseUrl model language\<close>: the POST to
    \<^verbatim>\<open>${baseUrl}/api/generate\<close>;
  \<^item> \<open>CliAgentPost word provider timeout language\<close>: the POST to the relay's
    \<^verbatim>\<open>/api/cli-agent\<close>.
\<close>

datatype outbound =
    GeminiGenerate jsstring jsstring "jsstring option"
  | OpenAIChat jsstring jsstring "jsstring option"
  | AnthropicMessages jsstring jsstring "jsstring option"
  | OllamaGenerate jsstring jsstring jsstring "jsstring option"
  | CliAgentPost jsstring jsstring int "jsstring option"

text \<open>
  What an adapter reads of a response: \<^verbatim>\<open>response.ok\<close>,
  \<^verbatim>\<open>response.statusText\<close>, the \<^verbatim>\<open>error.message\<close> of an error body, and
  the text field it extracts from (\<^verbatim>\<open>data.output\<close>, \<^verbatim>\<open>data.response\<close>,
  \<^verbatim>\<open>data.content[0].text\<close>, \<^verbatim>\<open>data.choices[0].message.content\<close>,
  \<^verbatim>\<open>result.response.text()\<close>); \<open>None\<close> for a field the body does not
  have. The network is a function from a call to a rejection or a reply.
\<close>

record reply =
  ok :: bool
  statusText :: jsstring
  errorMessage :: "jsstring option"
  content :: "jsstring option"

type_synonym network = "outbound \<Rightarrow> js_error + reply"

text \<open>
  A fetch routine returns its outcome and the list of outbound calls it
  made.
\<close>

type_synonym fetched = "(js_error + js_value) \<times> outbound list"

text \<open>\<^verbatim>\<open>x || d\<close> on an optional string and on an optional number.\<close>

definition or_else :: "jsstring option \<Rightarrow> jsstring \<Rightarrow> jsstring" where
  "or_else x d = (if truthy x then the x else d)"

definition or_else_num :: "int option \<Rightarrow> int \<Rightarrow> int" where
  "or_else_num x d = (case x of None \<Rightarrow> d | Some n \<Rightarrow> if n = 0 then d else n)"

text \<open>\<^verbatim>\<open>JSON.parse(text)\<close> as the value a routine returns.\<close>

definition parse_result :: "jsstring \<Rightarrow> js_error + js_value" where
  "parse_result text =
     (case JSON_parse text of None \<Rightarrow> Inl SyntaxError | Some v \<Rightarrow> Inr (Parsed v))"

text \<open>
  The match and parse shared by the Anthropic, Ollama and CLI-agent
  adapters; \<open>msg\<close> is the message of the error thrown without a match.
\<close>

definition match_and_parse :: "jsstring \<Rightarrow> jsstring \<Rightarrow> js_error + js_value" where
  "match_and_parse msg text =
     (case regex_match text of
        None \<Rightarrow> Inl (Error msg)
      | Some m \<Rightarrow> parse_result m)"

subsection \<open>Adapters\<close>

definition fetchWordJourneyGeminiAPI ::
  "network \<Rightarrow> jsstring \<Rightarrow> jsstring \<Rightarrow> jsstring option \<Rightarrow> fetched" where
  "fetchWordJourneyGeminiAPI net w key lang =
     (let call = GeminiGenerate w key lang in
      (case net call of
         Inl e \<Rightarrow> Inl e
       | Inr r \<Rightarrow>
           (case content r of
              None \<Rightarrow> Inl TypeError
            | Some text \<Rightarrow> parse_result text),
       [call]))"

definition fetchWordJourneyOpenAI ::
  "network \<Rightarrow> jsstring \<Rightarrow> jsstring \<Rightarrow> jsstring option \<Rightarrow> fetched" where
  "fetchWordJourneyOpenAI net w key lang =
     (let call = OpenAIChat w key lang in
      (case net call of
         Inl e \<Rightarrow> Inl e
       | Inr r \<Rightarrow>
           if \<not> ok r then Inl (Error (or_else (errorMessage r) (str ''OpenAI API error'')))
           else
             (case content r of
                None \<Rightarrow> Inl TypeError
              | Some text \<Rightarrow> parse_result text),
       [call]))"

definition fetchWordJourneyAnthropic ::
  "network \<Rightarrow> jsstring \<Rightarrow> jsstring \<Rightarrow> jsstring option \<Rightarrow> fetched" where
  "fetchWordJourneyAnthropic net w key lang =
     (let call = AnthropicMessages w key lang in
      (case net call of
         Inl e \<Rightarrow> Inl e
       | Inr r \<Rightarrow>
           if \<not> ok r then Inl (Error (or_else (errorMessage r) (str ''Anthropic API error'')))
           else
             (case content r of
                None \<Rightarrow> Inl TypeError
              | Some text \<Rightarrow> match_and_parse (str ''No valid JSON in Anthropic response'') text),
       [call]))"

definition fetchWordJourneyOllama ::
  "network \<Rightarrow> jsstring \<Rightarrow> jsstring \<Rightarrow> jsstring \<Rightarrow> jsstring option \<Rightarrow> fetched" where
  "fetchWordJourneyOllama net w url mdl lang =
     (let call = OllamaGenerate w url mdl lang in
      (case net call of
         Inl e \<Rightarrow> Inl e
       | Inr r \<Rightarrow>
           if \<not> ok r then Inl (Error (str ''Ollama error: '' @ statusText r))
           else
             (case content r of
                None \<Rightarrow> Inl TypeError
              | Some text \<Rightarrow> match_and_parse (str ''No valid JSON in Ollama response'') text),
       [call]))"

definition fetchWordJourneyCLI ::
  "network \<Rightarrow> jsstring \<Rightarrow> jsstring \<Rightarrow> int \<Rightarrow> jsstring option \<Rightarrow> fetched" where
  "fetchWordJourneyCLI net w prov secs lang =
     (let call = CliAgentPost w prov secs lang in
      (case net call of
         Inl e \<Rightarrow> Inl e
       | Inr r \<Rightarrow>
           if \<not> ok r then Inl (Error (str ''CLI agent error: '' @ statusText r))
           else
             (case content r of
                None \<Rightarrow> Inl TypeError
              | Some text \<Rightarrow> match_and_parse (str ''No valid JSON in response'') text),
       [call]))"

subsection \<open>Mock data\<close>

text \<open>The two entries of the table \<^verbatim>\<open>mockData\<close>.\<close>

definition coffee_origin :: origin where
  "coffee_origin =
     \<lparr> origin.word = str ''qahwah'',
       language = str ''Arabic'',
       meaning = str ''Wine; a stimulating dark beverage'',
       location = \<lparr> name = str ''Mokha, Yemen'', countryCode = str ''YE'', coordinates = (43.25, 13.32) \<rparr>,
       century = str ''15th Century'' \<rparr>"

definition coffee_journey :: "journeyStep list" where
  "coffee_journey =
    [\<lparr> order = 1,
       word = str ''kahve'',
       language = str ''Ottoman Turkish'',
       pronunciation = None,
       location = \<lparr> name = str ''Istanbul, Turkey'', countryCode = str ''TR'', coordinates = (28.98, 41.01) \<rparr>,
       century = str ''16th Century'',
       routeType = land,
       notes = str ''Spread through Ottoman Empire trade routes'' \<rparr>,
     \<lparr> order = 2,
       word = str ''caff'' @ [232],
       language = str ''Italian'',
       pronunciation = None,
       location = \<lparr> name = str ''Venice, Italy'', countryCode = str ''IT'', coordinates = (12.34, 45.44) \<rparr>,
       century = str ''17th Century'',
       routeType = sea,
       notes = str ''Venetian merchants brought coffee from Ottoman ports'' \<rparr>,
     \<lparr> order = 3,
       word = str ''caf'' @ [233],
       language = str ''French'',
       pronunciation = None,
       location = \<lparr> name = str ''Paris, France'', countryCode = str ''FR'', coordinates = (2.35, 48.86) \<rparr>,
       century = str ''17th Century'',
       routeType = land,
       notes = str ''French coffeehouses became cultural centers'' \<rparr>,
     \<lparr> order = 4,
       word = str ''coffee'',
       language = str ''English'',
       pronunciation = None,
       location = \<lparr> name = str ''London, England'', countryCode = str ''GB'', coordinates = (- 0.12, 51.51) \<rparr>,
       century = str ''17th Century'',
       routeType = sea,
       notes = str ''First London coffeehouse opened 1652'' \<rparr>]"

definition coffee :: wordJourney where
  "coffee =
     \<lparr> word = str ''coffee'',
       currentMeaning = str ''A dark brown stimulating drink made from roasted and ground seeds of the coffee plant'',
       origin = coffee_origin,
       journey = coffee_journey,
       narrative = str ''The word '' @ [39] @ str ''coffee'' @ [39] @ str '' embarks on a rich linguistic and geographic journey...'',
       routeSummary = str ''MARITIME_TRADE'',
       funFact = Some (str ''The first European coffeehouse opened in Venice in 1629.'') \<rparr>"

definition tea_origin :: origin where
  "tea_origin =
     \<lparr> origin.word = [33590] @ str '' (ch'' @ [225] @ str '')'',
       language = str ''Chinese (Mandarin)'',
       meaning = str ''The tea plant and beverage'',
       location = \<lparr> name = str ''Fujian Province, China'', countryCode = str ''CN'', coordinates = (118.0, 26.0) \<rparr>,
       century = str ''3rd Century BCE'' \<rparr>"

definition tea_journey :: "journeyStep list" where
  "tea_journey =
    [\<lparr> order = 1,
       word = str ''t'' @ [234],
       language = str ''Min Chinese (Hokkien)'',
       pronunciation = Some (str ''te''),
       location = \<lparr> name = str ''Xiamen, China'', countryCode = str ''CN'', coordinates = (118.08, 24.48) \<rparr>,
       century = str ''16th Century'',
       routeType = land,
       notes = str ''Maritime trade variant pronunciation'' \<rparr>,
     \<lparr> order = 2,
       word = str ''thee'',
       language = str ''Dutch'',
       pronunciation = None,
       location = \<lparr> name = str ''Amsterdam, Netherlands'', countryCode = str ''NL'', coordinates = (4.9, 52.37) \<rparr>,
       century = str ''17th Century'',
       routeType = sea,
       notes = str ''Dutch East India Company brought tea from Fujian'' \<rparr>,
     \<lparr> order = 3,
       word = str ''tea'',
       language = str ''English'',
       pronunciation = None,
       location = \<lparr> name = str ''London, England'', countryCode = str ''GB'', coordinates = (- 0.12, 51.51) \<rparr>,
       century = str ''17th Century'',
       routeType = sea,
       notes = str ''Borrowed from Dutch traders'' \<rparr>]"

definition tea :: wordJourney where
  "tea =
     \<lparr> word = str ''tea'',
       currentMeaning = str ''An aromatic beverage prepared by pouring hot water over cured leaves of the Camellia sinensis plant'',
       origin = tea_origin,
       journey = tea_journey,
       narrative = str ''The word '' @ [39] @ str ''tea'' @ [39] @ str '' follows the maritime Silk Road from China to Europe...'',
       routeSummary = str ''MARITIME_SILK_ROAD'',
       funFact = Some ([39] @ str ''Tea'' @ [39] @ str ''-like words indicate maritime trade, '' @ [39] @ str ''cha'' @ [39] @ str ''-like words indicate overland Silk Road trade.'') \<rparr>"

definition mockData :: "(jsstring \<times> wordJourney) list" where
  "mockData = [(str ''coffee'', coffee), (str ''tea'', tea)]"

text \<open>
  \<^verbatim>\<open>mockData\<close> is an object literal, so \<^verbatim>\<open>mockData[key]\<close> looks the key up
  among its own properties and then in \<^verbatim>\<open>Object.prototype\<close>, whose members
  (functions, and the prototype object itself for \<^verbatim>\<open>__proto__\<close>) are all
  truthy. \<open>None\<close> is \<^verbatim>\<open>undefined\<close>.
\<close>

definition objectPrototypeKeys :: "jsstring list" where
  "objectPrototypeKeys =
     [str ''constructor'', str ''hasOwnProperty'', str ''isPrototypeOf'',
      str ''propertyIsEnumerable'', str ''toLocaleString'', str ''toString'',
      str ''valueOf'', str ''__proto__'', str ''__defineGetter__'',
      str ''__defineSetter__'', str ''__lookupGetter__'', str ''__lookupSetter__'']"

definition mockData_get :: "jsstring \<Rightarrow> js_value option" where
  "mockData_get key =
     (case map_of mockData key of
        Some j \<Rightarrow> Some (Journey j)
      | None \<Rightarrow> if key \<in> set objectPrototypeKeys then Some (Builtin key) else None)"

text \<open>The delay of 1500 ms before the lookup has no effect on the result.\<close>

definition fetchWordJourneyMock :: "jsstring \<Rightarrow> js_error + js_value" where
  "fetchWordJourneyMock w =
     (let normalizedWord = toLowerCase w in
      case mockData_get normalizedWord of
        Some v \<Rightarrow> Inr v
      | None \<Rightarrow>
          Inl (Error (str ''Mock data not available for '' @ [34] @ w @ [34] @
                      str ''. Use a real AI provider or try: coffee, tea'')))"

subsection \<open>Main entry point\<close>

definition fetchWordJourney :: "network \<Rightarrow> jsstring \<Rightarrow> aiProviderConfig \<Rightarrow> fetched" where
  "fetchWordJourney net w config =
     (let p = provider config in
      if p = str ''gemini-api'' then
        (if \<not> truthy (apiKey config)
         then (Inl (Error (str ''API key required for Gemini API'')), [])
         else fetchWordJourneyGeminiAPI net w (the (apiKey config)) (responseLanguage config))
      else if p = str ''openai-api'' then
        (if \<not> truthy (apiKey config)
         then (Inl (Error (str ''API key required for OpenAI API'')), [])
         else fetchWordJourneyOpenAI net w (the (apiKey config)) (responseLanguage config))
      else if p = str ''anthropic-api'' then
        (if \<not> truthy (apiKey config)
         then (Inl (Error (str ''API key required for Anthropic API'')), [])
         else fetchWordJourneyAnthropic net w (the (apiKey config)) (responseLanguage config))
      else if p = str ''ollama'' then
        fetchWordJourneyOllama net w
          (or_else (baseUrl config) (str ''http://localhost:11434''))
          (or_else (model config) (str ''llama3''))
          (responseLanguage config)
      else if p = str ''gemini'' \<or> p = str ''claude'' \<or> p = str ''codex'' \<or> p = str ''qwen'' then
        fetchWordJourneyCLI net w p (or_else_num (timeout config) 60) (responseLanguage config)
      else (fetchWordJourneyMock w, []))"

section \<open>Playback state (\<^verbatim>\<open>src/App.tsx\<close>)\<close>

text \<open>
  The component state the playback handlers read and write: the loaded
  journey (\<^verbatim>\<open>null\<close> before the first successful search), the index of
  the active waypoint (\<open>-1\<close> is the origin) and the play flag.
\<close>

record app_state =
  journeyData :: "wordJourney option"
  activeWaypointIndex :: int
  isPlaying :: bool

definition handleReset :: "app_state \<Rightarrow> app_state" where
  "handleReset s = s\<lparr>isPlaying := False, activeWaypointIndex := - 1\<rparr>"

definition handleNext :: "app_state \<Rightarrow> app_state" where
  "handleNext s =
     (case journeyData s of
        None \<Rightarrow> s
      | Some d \<Rightarrow>
          s\<lparr>activeWaypointIndex :=
              min (activeWaypointIndex s + 1) (int (length (journey d)) - 1)\<rparr>)"

definition handlePrev :: "app_state \<Rightarrow> app_state" where
  "handlePrev s = s\<lparr>activeWaypointIndex := max (activeWaypointIndex s - 1) (- 1)\<rparr>"

datatype playback_op = Next | Prev | Reset

fun apply_op :: "app_state \<Rightarrow> playback_op \<Rightarrow> app_state" where
  "apply_op s Next = handleNext s"
| "apply_op s Prev = handlePrev s"
| "apply_op s Reset = handleReset s"

definition run_ops :: "app_state \<Rightarrow> playback_op list \<Rightarrow> app_state" where
  "run_ops s ops = foldl apply_op s ops"

section \<open>The relay (\<^verbatim>\<open>server/api.ts\<close>)\<close>

text \<open>
  The host the relay runs on: \<^verbatim>\<open>execSync\<close>; \<^verbatim>\<open>spawn\<close> of the
  \<^verbatim>\<open>cli_caller.py\<close> process, given the \<^verbatim>\<open>model\<close>, \<^verbatim>\<open>prompt\<close> and
  \<^verbatim>\<open>timeout\<close> of the request body (\<open>None\<close> is \<^verbatim>\<open>undefined\<close>); and the
  fetch of the Ollama tags for a request URL. A spawned process either makes
  \<^verbatim>\<open>spawn\<close> throw, or emits \<^verbatim>\<open>error\<close> with a message, or closes with
  its exit code (\<^verbatim>\<open>null\<close>, here \<open>None\<close>, when a signal killed it, as the
  spawn timeout does) after writing to its standard output and standard
  error.
\<close>

datatype spawn_outcome =
    SpawnThrows js_error
  | ErrorEvent jsstring
  | Close "nat option" jsstring jsstring

datatype tags_outcome =
    TagsRejected js_error
  | TagsStatus nat
  | TagsData json

record host =
  execSync :: shell
  spawn :: "json option \<Rightarrow> json option \<Rightarrow> json \<Rightarrow> spawn_outcome"
  fetchTags :: "jsstring \<Rightarrow> tags_outcome"

record request =
  "method" :: jsstring
  url :: jsstring
  payload :: jsstring

text \<open>
  A response: the status code and what \<^verbatim>\<open>res.end\<close> sends. In
  \<open>FailureJson e out\<close> the member \<^verbatim>\<open>error\<close> is the message of \<open>e\<close> and
  \<^verbatim>\<open>output\<close> is \<open>out\<close>; \<open>UnavailableJson e\<close> is
  \<^verbatim>\<open>{error: 'Ollama not available', message, models: []}\<close> with the message
  of \<open>e\<close>.
\<close>

datatype body =
    NoBody
  | Text jsstring
  | AgentsJson "(jsstring \<times> bool) list"
  | OutputJson jsstring
  | FailureJson js_error jsstring
  | TagsJson json
  | UnavailableJson js_error

record response =
  statusCode :: nat
  sent :: body

definition CLI_AGENTS :: "jsstring list" where
  "CLI_AGENTS = [str ''gemini'', str ''claude'', str ''codex'', str ''qwen'']"

text \<open>
  \<^verbatim>\<open>checkCliInstalled\<close>: \<open>Inl\<close> would be an exception leaving the
  function; the catch block turns every failure of \<^verbatim>\<open>execSync\<close> into
  \<^verbatim>\<open>false\<close>.
\<close>

definition checkCliInstalled :: "host \<Rightarrow> jsstring \<Rightarrow> js_error + bool" where
  "checkCliInstalled h nm =
     (case execSync h (Which nm) None of
        Inr _ \<Rightarrow> Inr True
      | Inl _ \<Rightarrow> Inr False)"

text \<open>
  \<^verbatim>\<open>CLI_AGENTS.map(name => ({name, installed: checkCliInstalled(name)}))\<close>:
  an exception of a call would leave the loop.
\<close>

fun checkAll :: "host \<Rightarrow> jsstring list \<Rightarrow> js_error + (jsstring \<times> bool) list" where
  "checkAll h [] = Inr []"
| "checkAll h (nm # nms) =
     (case checkCliInstalled h nm of
        Inl e \<Rightarrow> Inl e
      | Inr b \<Rightarrow>
          (case checkAll h nms of
             Inl e \<Rightarrow> Inl e
           | Inr rest \<Rightarrow> Inr ((nm, b) # rest)))"

text \<open>
  A property read \<^verbatim>\<open>v[key]\<close> of a parsed value, for the keys the relay
  reads: the last member of that name of an object, \<^verbatim>\<open>undefined\<close>
  otherwise.
\<close>

definition member :: "json \<Rightarrow> jsstring \<Rightarrow> json option" where
  "member v key = (case v of JObject kvs \<Rightarrow> map_of (rev kvs) key | _ \<Rightarrow> None)"

text \<open>The listener of the \<^verbatim>\<open>close\<close> event of the spawned process.\<close>

definition onClose :: "nat option \<Rightarrow> jsstring \<Rightarrow> jsstring \<Rightarrow> response" where
  "onClose exitCode output errorOutput =
     (if exitCode = Some 0 \<or> length output > 0 then
        \<lparr>statusCode = 200,
         sent = OutputJson (if output \<noteq> [] then output else errorOutput)\<rparr>
      else
        \<lparr>statusCode = 500,
         sent = FailureJson
                  (Error (str ''Process exited with code '' @
                          (case exitCode of None \<Rightarrow> str ''null'' | Some n \<Rightarrow> decimal n)))
                  errorOutput\<rparr>)"

text \<open>
  The route \<^verbatim>\<open>POST /api/cli-agent\<close> once the request body has arrived:
  the body is parsed and destructured (which throws on \<^verbatim>\<open>null\<close>), the
  process is spawned and its first event answered; every exception of the
  try block is answered with status 500.
\<close>

definition cliAgentRoute :: "host \<Rightarrow> jsstring \<Rightarrow> response" where
  "cliAgentRoute h text =
     (case JSON_parse text of
        None \<Rightarrow> \<lparr>statusCode = 500, sent = FailureJson SyntaxError []\<rparr>
      | Some JNull \<Rightarrow> \<lparr>statusCode = 500, sent = FailureJson TypeError []\<rparr>
      | Some v \<Rightarrow>
          (case spawn h (member v (str ''model'')) (member v (str ''prompt''))
                  (case member v (str ''timeout'') of None \<Rightarrow> JNumber 60 | Some t \<Rightarrow> t) of
             SpawnThrows e \<Rightarrow> \<lparr>statusCode = 500, sent = FailureJson e []\<rparr>
           | ErrorEvent m \<Rightarrow> \<lparr>statusCode = 500, sent = FailureJson (HostError m) []\<rparr>
           | Close exitCode output errorOutput \<Rightarrow> onClose exitCode output errorOutput))"

definition startsWith :: "jsstring \<Rightarrow> jsstring \<Rightarrow> bool" where
  "startsWith s p = (take (length p) s = p)"

text \<open>The request listener; \<open>Inl\<close> is an exception that leaves it.\<close>

definition server :: "host \<Rightarrow> request \<Rightarrow> js_error + response" where
  "server h req =
     (if method req = str ''OPTIONS'' then Inr \<lparr>statusCode = 204, sent = NoBody\<rparr>
      else if method req = str ''GET'' \<and> url req = str ''/api/cli-agents/check'' then
        (case checkAll h CLI_AGENTS of
           Inl e \<Rightarrow> Inl e
         | Inr agents \<Rightarrow> Inr \<lparr>statusCode = 200, sent = AgentsJson agents\<rparr>)
      else if method req = str ''GET'' \<and> startsWith (url req) (str ''/api/ollama/tags'') then
        Inr (case fetchTags h (url req) of
               TagsData d \<Rightarrow> \<lparr>statusCode = 200, sent = TagsJson d\<rparr>
             | TagsStatus n \<Rightarrow>
                 \<lparr>statusCode = 503,
                  sent = UnavailableJson (Error (str ''Ollama returned '' @ decimal n))\<rparr>
             | TagsRejected e \<Rightarrow> \<lparr>statusCode = 503, sent = UnavailableJson e\<rparr>)
      else if method req = str ''POST'' \<and> url req = str ''/api/cli-agent'' then
        Inr (cliAgentRoute h (payload req))
      else Inr \<lparr>statusCode = 404, sent = Text (str ''Not found'')\<rparr>)"

section \<open>Observations used in the statements\<close>

text \<open>
  \<open>has_braced s\<close>: an opening brace occurs in \<open>s\<close> with a closing brace
  somewhere after it.
\<close>

definition has_braced :: "jsstring \<Rightarrow> bool" where
  "has_braced s = (rbrace \<in> set (dropWhile (\<lambda>c. c \<noteq> lbrace) s))"

text \<open>
  \<^verbatim>\<open>result.journey.map(step => step.order)\<close> on a resolved value, when it
  has a journey array whose elements all have a numeric \<^verbatim>\<open>order\<close>.
\<close>

definition waypointOrders :: "js_value \<Rightarrow> rat list option" where
  "waypointOrders r =
     (case r of
        Journey j \<Rightarrow> Some (map (\<lambda>step. of_int (order step)) (journey j))
      | Parsed v \<Rightarrow>
          (case member v (str ''journey'') of
             Some (JArray steps) \<Rightarrow>
               those (map (\<lambda>step. case member step (str ''order'') of
                                      Some (JNumber n) \<Rightarrow> Some n
                                    | _ \<Rightarrow> None) steps)
           | _ \<Rightarrow> None)
      | Builtin _ \<Rightarrow> None)"

text \<open>The eight identifiers of the type \<^verbatim>\<open>AIProvider\<close>.\<close>

definition knownProviders :: "jsstring list" where
  "knownProviders =
     [str ''gemini'', str ''claude'', str ''codex'', str ''qwen'',
      str ''gemini-api'', str ''openai-api'', str ''anthropic-api'', str ''ollama'']"

section \<open>The parser\<close>

lemma skip_ws_length: "length (skip_ws cs) \<le> length cs"
  unfolding skip_ws_def by (rule length_dropWhile_le)

lemma skip_ws_Cons_length: "skip_ws cs = c # rest \<Longrightarrow> length rest < length cs"
  using skip_ws_length[of cs] by simp

lemma parse_string_body_length:
  "parse_string_body cs = Some (s, r) \<Longrightarrow> length r < length cs"
proof (induction cs arbitrary: s r rule: parse_string_body.induct)
  case 1
  then show ?case by simp
next
  case (2 c cs)
  then show ?case
    by (fastforce simp: consed_def split: if_splits list.splits option.splits)
qed

lemma parse_int_part_length:
  "parse_int_part cs = Some (i, r) \<Longrightarrow> length r < length cs"
  using length_dropWhile_le[of is_digit "tl cs"]
  by (auto simp: parse_int_part_def split: list.splits if_splits)

lemma parse_frac_length:
  "parse_frac cs = Some (f, r) \<Longrightarrow> length r \<le> length cs"
  using length_dropWhile_le[of is_digit "tl cs"]
  by (auto simp: parse_frac_def Let_def split: list.splits if_splits)

lemma parse_exp_length:
  "parse_exp cs = Some (e, r) \<Longrightarrow> length r \<le> length cs"
  using length_dropWhile_le[of is_digit "tl cs"] length_dropWhile_le[of is_digit "tl (tl cs)"]
  by (auto simp: parse_exp_def Let_def split: list.splits if_splits)

lemma parse_number_length:
  assumes "parse_number cs = Some (v, r)"
  shows "length r < length cs"
proof -
  let ?cs1 = "if (case cs of c # _ \<Rightarrow> c = 45 | [] \<Rightarrow> False) then tl cs else cs"
  from assms obtain i cs2 f cs3 e where
    a: "parse_int_part ?cs1 = Some (i, cs2)" and b: "parse_frac cs2 = Some (f, cs3)"
    and c: "parse_exp cs3 = Some (e, r)"
    by (auto simp: parse_number_def Let_def split: option.splits)
  have "length ?cs1 \<le> length cs" by simp
  with parse_int_part_length[OF a] parse_frac_length[OF b] parse_exp_length[OF c]
  show ?thesis by linarith
qed

lemma parse_literal_length:
  assumes "parse_literal cs = Some (v, r)"
  shows "length r < length cs"
proof -
  from assms have "cs \<noteq> []"
    by (auto simp: parse_literal_def str_def split: if_splits)
  moreover from assms have "r = drop 4 cs \<or> r = drop 5 cs"
    by (auto simp: parse_literal_def split: if_splits)
  ultimately show ?thesis by auto
qed

lemma parse_consumes:
  "parse_value cs = Some (v, r) \<Longrightarrow> length r < length cs"
  "parse_elements cs = Some (vs, r) \<Longrightarrow> length r < length cs"
  "parse_members cs = Some (kvs, r) \<Longrightarrow> length r < length cs"
proof (induction cs and cs and cs arbitrary: v r and vs r and kvs r
       rule: parse_value_parse_elements_parse_members.induct)
  case (1 cs)
  from "1.prems" obtain c rest where sk: "skip_ws cs = c # rest"
    by (subst (asm) parse_value.simps) (auto split: list.splits)
  then have le: "length rest < length cs" by (rule skip_ws_Cons_length)
  have "length r \<le> length rest"
  proof (cases "c = lbrace")
    case True
    with "1.prems" sk obtain d rest' where sk': "skip_ws rest = d # rest'"
      by (subst (asm) parse_value.simps) (auto split: list.splits)
    show ?thesis
    proof (cases "d = rbrace")
      case True
      with "1.prems" sk sk' \<open>c = lbrace\<close> have "r = rest'"
        by (subst (asm) parse_value.simps) auto
      with skip_ws_Cons_length[OF sk'] show ?thesis by simp
    next
      case False
      with "1.prems" sk sk' \<open>c = lbrace\<close> obtain kvs where "parse_members rest = Some (kvs, r)"
        by (subst (asm) parse_value.simps) auto
      with "1.IH"(1)[OF sk \<open>c = lbrace\<close> sk' False] show ?thesis by simp
    qed
  next
    case nb: False
    show ?thesis
    proof (cases "c = 91")
      case True
      with "1.prems" sk nb obtain d rest' where sk': "skip_ws rest = d # rest'"
        by (subst (asm) parse_value.simps) (auto split: list.splits)
      show ?thesis
      proof (cases "d = 93")
        case True
        with "1.prems" sk sk' nb \<open>c = 91\<close> have "r = rest'"
          by (subst (asm) parse_value.simps) auto
        with skip_ws_Cons_length[OF sk'] show ?thesis by simp
      next
        case False
        with "1.prems" sk sk' nb \<open>c = 91\<close> obtain vs where "parse_elements rest = Some (vs, r)"
          by (subst (asm) parse_value.simps) auto
        with "1.IH"(2)[OF sk nb \<open>c = 91\<close> sk' False] show ?thesis by simp
      qed
    next
      case na: False
      with "1.prems" sk nb have
        "(\<exists>s. parse_string_body rest = Some (s, r)) \<or> parse_number (c # rest) = Some (v, r)
          \<or> parse_literal (c # rest) = Some (v, r)"
        by (subst (asm) parse_value.simps) (auto split: if_splits)
      then show ?thesis
        using parse_string_body_length parse_number_length parse_literal_length
        by fastforce
    qed
  qed
  with le show ?case by simp
next
  case (2 cs)
  from "2.prems" obtain v r0 where pv: "parse_value cs = Some (v, r0)"
    and g: "length r0 < length cs"
    by (subst (asm) parse_elements.simps) (auto split: option.splits if_splits)
  with "2.prems" obtain c r' where sk: "skip_ws r0 = c # r'"
    by (subst (asm) parse_elements.simps) (auto split: list.splits)
  have lr: "length r' < length r0" using sk by (rule skip_ws_Cons_length)
  show ?case
  proof (cases "c = 44")
    case True
    with "2.prems" pv g sk obtain vs' where "parse_elements r' = Some (vs', r)"
      by (subst (asm) parse_elements.simps) (auto simp: consed_def)
    with "2.IH"(2) pv g sk True lr show ?thesis by fastforce
  next
    case False
    with "2.prems" pv g sk have "r = r'"
      by (subst (asm) parse_elements.simps) (auto split: if_splits)
    with g lr show ?thesis by simp
  qed
next
  case (3 cs)
  from "3.prems" obtain q r0 where sk0: "skip_ws cs = q # r0" and q: "q = 34"
    by (subst (asm) parse_members.simps) (auto split: list.splits if_splits)
  with "3.prems" obtain k r1 where ps: "parse_string_body r0 = Some (k, r1)"
    by (subst (asm) parse_members.simps) (auto split: option.splits)
  with "3.prems" sk0 q obtain c r2 where sk1: "skip_ws r1 = c # r2" and c: "c = 58"
    by (subst (asm) parse_members.simps) (auto split: list.splits if_splits)
  with "3.prems" sk0 q ps obtain v r3 where pv: "parse_value r2 = Some (v, r3)"
    and g: "length r3 < length r2"
    by (subst (asm) parse_members.simps) (auto split: option.splits if_splits)
  with "3.prems" sk0 q ps sk1 c obtain e r4 where sk3: "skip_ws r3 = e # r4"
    by (subst (asm) parse_members.simps) (auto split: list.splits)
  have chain: "length r4 < length cs"
    using skip_ws_Cons_length[OF sk0] parse_string_body_length[OF ps]
      skip_ws_Cons_length[OF sk1] g skip_ws_Cons_length[OF sk3] by linarith
  show ?case
  proof (cases "e = 44")
    case True
    with "3.prems" sk0 q ps sk1 c pv g sk3 obtain kvs' where
      "parse_members r4 = Some (kvs', r)"
      by (subst (asm) parse_members.simps) (auto simp: consed_def)
    with "3.IH"(2) sk0 q ps sk1 c pv g sk3 True chain show ?thesis
      by fastforce
  next
    case False
    with "3.prems" sk0 q ps sk1 c pv g sk3 have "r = r4"
      by (subst (asm) parse_members.simps) (auto split: if_splits)
    with chain show ?thesis by simp
  qed
qed

text \<open>The length checks of the two definitions never fail.\<close>

lemma parse_elements_eq:
  "parse_elements cs =
     (case parse_value cs of
        None \<Rightarrow> None
      | Some (v, r) \<Rightarrow>
          (case skip_ws r of
             [] \<Rightarrow> None
           | c # r' \<Rightarrow>
               if c = 44 then consed v (parse_elements r')
               else if c = 93 then Some ([v], r')
               else None))"
  by (subst parse_elements.simps) (auto split: option.splits dest: parse_consumes(1))

lemma parse_members_eq:
  "parse_members cs =
     (case skip_ws cs of
        [] \<Rightarrow> None
      | q # r0 \<Rightarrow>
          if q \<noteq> 34 then None
          else
            (case parse_string_body r0 of
               None \<Rightarrow> None
             | Some (k, r1) \<Rightarrow>
                 (case skip_ws r1 of
                    [] \<Rightarrow> None
                  | c # r2 \<Rightarrow>
                      if c \<noteq> 58 then None
                      else
                        (case parse_value r2 of
                           None \<Rightarrow> None
                         | Some (v, r3) \<Rightarrow>
                             (case skip_ws r3 of
                                [] \<Rightarrow> None
                              | e # r4 \<Rightarrow>
                                  if e = 44 then consed (k, v) (parse_members r4)
                                  else if e = rbrace then Some ([(k, v)], r4)
                                  else None)))))"
  by (subst parse_members.simps)
     (auto split: option.splits list.splits dest: parse_consumes(1))

text \<open>Some texts the parser accepts and some it rejects, as \<^verbatim>\<open>JSON.parse\<close> does.\<close>

lemma JSON_parse_accepts:
  \<open>JSON_parse (str '' { "a" : [1, -2.5e1, true, false, null, {}, []] , "b" : "x" } '')
     = Some (JObject [(str ''a'', JArray [JNumber 1, JNumber (- 25), JBool True, JBool False,
                                          JNull, JObject [], JArray []]),
                      (str ''b'', JString (str ''x''))])\<close>
  \<open>JSON_parse (str ''"a'' @ [92] @ str ''n'' @ [92] @ str ''u0041"'') = Some (JString [97, 10, 65])\<close>
  \<open>JSON_parse (str ''0.5'') = Some (JNumber (1 / 2))\<close>
  \<open>JSON_parse (str ''{"a":1,"a":2}'') = Some (JObject [(str ''a'', JNumber 1), (str ''a'', JNumber 2)])\<close>
  by code_simp+

lemma JSON_parse_rejects:
  \<open>JSON_parse (str ''{"a":1,}'') = None\<close>
  \<open>JSON_parse (str ''[1,]'') = None\<close>
  \<open>JSON_parse (str ''01'') = None\<close>
  \<open>JSON_parse (str ''{a:1}'') = None\<close>
  \<open>JSON_parse (str ''{"a":1} x'') = None\<close>
  \<open>JSON_parse (str ''{"a":1'') = None\<close>
  \<open>JSON_parse (str '''') = None\<close>
  by code_simp+

text \<open>A text that starts with an opening brace parses to an object, if at all.\<close>

lemma JSON_parse_object:
  assumes "JSON_parse (lbrace # cs) = Some v"
  shows "\<exists>kvs. v = JObject kvs"
proof -
  have "skip_ws (lbrace # cs) = lbrace # cs"
    by (simp add: skip_ws_def is_ws_def lbrace_def)
  with assms show ?thesis
    unfolding JSON_parse_def
    by (subst (asm) parse_value.simps)
       (auto split: option.splits list.splits if_splits)
qed

section \<open>The match\<close>

lemma braces_differ: "lbrace \<noteq> rbrace"
  by (simp add: lbrace_def rbrace_def)

lemma greedy_to_rbrace_None: "greedy_to_rbrace cs = None \<longleftrightarrow> rbrace \<notin> set cs"
  by (induction cs) (auto split: option.splits)

lemma greedy_to_rbrace_last:
  assumes "rbrace \<notin> set post"
  shows "greedy_to_rbrace (mid @ rbrace # post) = Some (mid @ [rbrace])"
proof (induction mid)
  case Nil
  from assms have "greedy_to_rbrace post = None"
    by (simp add: greedy_to_rbrace_None)
  then show ?case by simp
next
  case (Cons c mid)
  then show ?case by simp
qed

text \<open>The match runs from the first opening brace to the last closing brace.\<close>

lemma regex_match_first_last:
  "lbrace \<notin> set pre \<Longrightarrow> rbrace \<notin> set post \<Longrightarrow>
   regex_match (pre @ lbrace # mid @ rbrace # post) = Some (lbrace # mid @ [rbrace])"
  by (induction pre) (auto simp: greedy_to_rbrace_last)

lemma regex_match_None: "regex_match s = None \<longleftrightarrow> \<not> has_braced s"
proof (induction s)
  case Nil
  show ?case by (simp add: has_braced_def)
next
  case (Cons c cs)
  show ?case
  proof (cases "c = lbrace")
    case False
    with Cons show ?thesis by (simp add: has_braced_def)
  next
    case True
    have sub: "rbrace \<notin> set cs \<Longrightarrow> \<not> has_braced cs"
      unfolding has_braced_def by (auto dest: set_dropWhileD)
    from True have "has_braced (c # cs) \<longleftrightarrow> rbrace \<in> set cs"
      using braces_differ by (auto simp: has_braced_def)
    moreover from True have "regex_match (c # cs) = None \<longleftrightarrow>
        greedy_to_rbrace cs = None \<and> regex_match cs = None"
      by (auto split: option.splits)
    ultimately show ?thesis
      using Cons sub by (auto simp: greedy_to_rbrace_None)
  qed
qed

lemma has_braced_iff:
  "has_braced s \<longleftrightarrow> (\<exists>a b c. s = a @ lbrace # b @ rbrace # c)"
proof
  assume "has_braced s"
  then have r: "rbrace \<in> set (dropWhile (\<lambda>c. c \<noteq> lbrace) s)"
    by (simp add: has_braced_def)
  obtain rest where d: "dropWhile (\<lambda>c. c \<noteq> lbrace) s = lbrace # rest"
  proof (cases "dropWhile (\<lambda>c. c \<noteq> lbrace) s")
    case Nil
    with r show ?thesis by simp
  next
    case (Cons x xs)
    then have "x = lbrace"
      using hd_dropWhile[of "\<lambda>c. c \<noteq> lbrace" s] by auto
    with Cons that show ?thesis by simp
  qed
  with r braces_differ have "rbrace \<in> set rest" by auto
  then obtain b c where "rest = b @ rbrace # c"
    by (auto simp: in_set_conv_decomp)
  with d have "s = takeWhile (\<lambda>c. c \<noteq> lbrace) s @ lbrace # b @ rbrace # c"
    using takeWhile_dropWhile_id[of "\<lambda>c. c \<noteq> lbrace" s] by simp
  then show "\<exists>a b c. s = a @ lbrace # b @ rbrace # c" by blast
next
  assume "\<exists>a b c. s = a @ lbrace # b @ rbrace # c"
  then obtain a b c where t: "s = a @ lbrace # b @ rbrace # c" by blast
  have "rbrace \<in> set (dropWhile (\<lambda>c. c \<noteq> lbrace) (a @ lbrace # b @ rbrace # c))"
    by (induction a) auto
  with t show "has_braced s" by (simp add: has_braced_def)
qed

text \<open>
  Whenever there is a match, it runs from the first opening brace of the
  text to its last closing brace.
\<close>

lemma regex_match_spans:
  assumes "has_braced s"
  shows "\<exists>pre mid post. s = pre @ lbrace # mid @ rbrace # post \<and>
           lbrace \<notin> set pre \<and> rbrace \<notin> set post \<and>
           regex_match s = Some (lbrace # mid @ [rbrace])"
proof -
  let ?pre = "takeWhile (\<lambda>c. c \<noteq> lbrace) s"
  from assms have r: "rbrace \<in> set (dropWhile (\<lambda>c. c \<noteq> lbrace) s)"
    by (simp add: has_braced_def)
  obtain rest where d: "dropWhile (\<lambda>c. c \<noteq> lbrace) s = lbrace # rest"
  proof (cases "dropWhile (\<lambda>c. c \<noteq> lbrace) s")
    case Nil
    with r show ?thesis by simp
  next
    case (Cons x xs)
    then have "x = lbrace"
      using hd_dropWhile[of "\<lambda>c. c \<noteq> lbrace" s] by auto
    with Cons that show ?thesis by simp
  qed
  with r braces_differ have "rbrace \<in> set rest" by auto
  then obtain mid post where m: "rest = mid @ rbrace # post" and p: "rbrace \<notin> set post"
    using split_list_last[of rbrace rest] by blast
  have s: "s = ?pre @ lbrace # mid @ rbrace # post"
    using takeWhile_dropWhile_id[of "\<lambda>c. c \<noteq> lbrace" s] d m by simp
  have pre: "lbrace \<notin> set ?pre"
    by (auto dest: set_takeWhileD)
  from regex_match_first_last[OF pre p, of mid] s
  have "regex_match s = Some (lbrace # mid @ [rbrace])" by simp
  with s pre p show ?thesis by blast
qed

section \<open>Extraction of the JSON object\<close>

text \<open>
  Claim C1, as the code has it. When the text before a well-formed JSON
  object holds no opening brace and the text after it holds no closing brace,
  the match is exactly the object, and the extraction step of
  \<^verbatim>\<open>extractJson\<close> and of the Anthropic, Ollama and CLI-agent adapters
  returns what \<^verbatim>\<open>JSON.parse\<close> makes of the object.
\<close>

theorem extractJson_surrounded:
  assumes "lbrace \<notin> set pre" and "rbrace \<notin> set post"
    and "obj = lbrace # mid @ [rbrace]"
    and "JSON_parse obj = Some v"
  shows "(\<exists>members. v = JObject members) \<and>
         extractJson (pre @ obj @ post) = Inr v \<and>
         match_and_parse msg (pre @ obj @ post) = Inr (Parsed v)"
proof -
  have "regex_match (pre @ obj @ post) = Some obj"
    using assms(1-3) regex_match_first_last[of pre post mid] by simp
  moreover from assms(3,4) have "\<exists>members. v = JObject members"
    using JSON_parse_object[of "mid @ [rbrace]" v] by simp
  ultimately show ?thesis
    using assms(4) by (simp add: extractJson_def match_and_parse_def parse_result_def)
qed

theorem extractJson_surrounded_witness:
  \<open>lbrace \<notin> set (str ''Here: '') \<and> rbrace \<notin> set (str '' ok'') \<and>
   str ''{"a":1}'' = lbrace # str ''"a":1'' @ [rbrace] \<and>
   JSON_parse (str ''{"a":1}'') = Some (JObject [(str ''a'', JNumber 1)]) \<and>
   extractJson (str ''Here: '' @ str ''{"a":1}'' @ str '' ok'')
     = Inr (JObject [(str ''a'', JNumber 1)]) \<and>
   match_and_parse (str ''No valid JSON in response'')
       (str ''Here: '' @ str ''{"a":1}'' @ str '' ok'')
     = Inr (Parsed (JObject [(str ''a'', JNumber 1)]))\<close>
proof -
  have h1: "lbrace \<notin> set (str ''Here: '')" by code_simp
  have h2: "rbrace \<notin> set (str '' ok'')" by code_simp
  have h3: \<open>str ''{"a":1}'' = lbrace # str ''"a":1'' @ [rbrace]\<close> by code_simp
  have h4: \<open>JSON_parse (str ''{"a":1}'') = Some (JObject [(str ''a'', JNumber 1)])\<close>
    by code_simp
  from extractJson_surrounded[OF h1 h2 h3 h4, of "str ''No valid JSON in response''"]
    h1 h2 h3 h4
  show ?thesis by simp
qed

text \<open>
  The response \<^verbatim>\<open>{"a":1} and {"b":2}\<close> starts with the well-formed object
  \<^verbatim>\<open>{"a":1}\<close>; the match is the whole response and \<^verbatim>\<open>JSON.parse\<close>
  rejects it.
\<close>

theorem extractJson_greedy_counterexample:
  \<open>JSON_parse (str ''{"a":1}'') = Some (JObject [(str ''a'', JNumber 1)]) \<and>
   regex_match (str ''{"a":1} and {"b":2}'') = Some (str ''{"a":1} and {"b":2}'') \<and>
   extractJson (str ''{"a":1} and {"b":2}'') = Inl SyntaxError\<close>
  by code_simp

text \<open>
  Claim C5. A response with no opening brace followed, anywhere later, by a
  closing brace has no match: \<^verbatim>\<open>extractJson\<close> fails with the error
  \<^verbatim>\<open>No valid JSON found in response\<close>, and the extraction step of the
  adapters fails with their \<^verbatim>\<open>No valid JSON ...\<close> error.
\<close>

theorem extractJson_no_object:
  assumes "\<nexists>a b c. s = a @ lbrace # b @ rbrace # c"
  shows "extractJson s = Inl (Error (str ''No valid JSON found in response'')) \<and>
         match_and_parse msg s = Inl (Error msg)"
proof -
  from assms have "regex_match s = None"
    by (simp add: regex_match_None has_braced_iff)
  then show ?thesis
    by (simp add: extractJson_def match_and_parse_def)
qed

theorem extractJson_no_object_witness:
  "(\<nexists>a b c. str ''done } but { open'' = a @ lbrace # b @ rbrace # c) \<and>
   extractJson (str ''done } but { open'')
     = Inl (Error (str ''No valid JSON found in response'')) \<and>
   match_and_parse (str ''No valid JSON in Ollama response'') (str ''done } but { open'')
     = Inl (Error (str ''No valid JSON in Ollama response''))"
proof -
  have "\<not> has_braced (str ''done } but { open'')" by code_simp
  then have h: "\<nexists>a b c. str ''done } but { open'' = a @ lbrace # b @ rbrace # c"
    by (simp add: has_braced_iff)
  from extractJson_no_object[OF h, of "str ''No valid JSON in Ollama response''"] h
  show ?thesis by simp
qed

text \<open>The same two facts through an adapter, for a reply with status ok.\<close>

lemma fetchWordJourneyCLI_ok:
  assumes "net (CliAgentPost w prov secs lang) = Inr r" and "ok r" and "content r = Some s"
  shows "fst (fetchWordJourneyCLI net w prov secs lang)
           = match_and_parse (str ''No valid JSON in response'') s"
  using assms by (simp add: fetchWordJourneyCLI_def)

lemma fetchWordJourneyOllama_ok:
  assumes "net (OllamaGenerate w base mdl lang) = Inr r" and "ok r" and "content r = Some s"
  shows "fst (fetchWordJourneyOllama net w base mdl lang)
           = match_and_parse (str ''No valid JSON in Ollama response'') s"
  using assms by (simp add: fetchWordJourneyOllama_def)

lemma fetchWordJourneyAnthropic_ok:
  assumes "net (AnthropicMessages w key lang) = Inr r" and "ok r" and "content r = Some s"
  shows "fst (fetchWordJourneyAnthropic net w key lang)
           = match_and_parse (str ''No valid JSON in Anthropic response'') s"
  using assms by (simp add: fetchWordJourneyAnthropic_def)

section \<open>The dispatcher and the mock backend\<close>

text \<open>
  Claim C3. For the three backends that need a credential, a configuration
  without an API key makes \<^verbatim>\<open>fetchWordJourney\<close> fail with the error
  \<^verbatim>\<open>API key required for ...\<close>, and no outbound call is made.
\<close>

theorem missing_credential:
  assumes "provider config \<in> {str ''gemini-api'', str ''openai-api'', str ''anthropic-api''}"
    and "apiKey config = None"
  shows "snd (fetchWordJourney net w config) = [] \<and>
         (\<exists>backend. fst (fetchWordJourney net w config) =
                      Inl (Error (str ''API key required for '' @ backend)))"
proof -
  have a: "str ''API key required for Gemini API''
             = str ''API key required for '' @ str ''Gemini API''"
    and b: "str ''API key required for OpenAI API''
             = str ''API key required for '' @ str ''OpenAI API''"
    and c: "str ''API key required for Anthropic API''
             = str ''API key required for '' @ str ''Anthropic API''"
    by (simp_all add: str_def)
  from assms(1) consider "provider config = str ''gemini-api''"
    | "provider config = str ''openai-api''" | "provider config = str ''anthropic-api''"
    by auto
  then show ?thesis
  proof cases
    case 1
    with assms(2) have "fetchWordJourney net w config =
        (Inl (Error (str ''API key required for Gemini API'')), [])"
      by (simp add: fetchWordJourney_def)
    then show ?thesis by (metis a fst_conv snd_conv)
  next
    case 2
    with assms(2) have "fetchWordJourney net w config =
        (Inl (Error (str ''API key required for OpenAI API'')), [])"
      by (simp add: fetchWordJourney_def str_def)
    then show ?thesis by (metis b fst_conv snd_conv)
  next
    case 3
    with assms(2) have "fetchWordJourney net w config =
        (Inl (Error (str ''API key required for Anthropic API'')), [])"
      by (simp add: fetchWordJourney_def str_def)
    then show ?thesis by (metis c fst_conv snd_conv)
  qed
qed

theorem missing_credential_witness:
  "provider \<lparr>provider = str ''openai-api'', apiKey = None, baseUrl = None, model = None,
              timeout = None, responseLanguage = None\<rparr>
     \<in> {str ''gemini-api'', str ''openai-api'', str ''anthropic-api''} \<and>
   snd (fetchWordJourney (\<lambda>call. Inl (HostError (str ''offline''))) (str ''coffee'')
          \<lparr>provider = str ''openai-api'', apiKey = None, baseUrl = None, model = None,
           timeout = None, responseLanguage = None\<rparr>) = [] \<and>
   (\<exists>backend.
      fst (fetchWordJourney (\<lambda>call. Inl (HostError (str ''offline''))) (str ''coffee'')
             \<lparr>provider = str ''openai-api'', apiKey = None, baseUrl = None, model = None,
              timeout = None, responseLanguage = None\<rparr>)
        = Inl (Error (str ''API key required for '' @ backend)))"
proof -
  let ?config = "\<lparr>provider = str ''openai-api'', apiKey = None, baseUrl = None,
                  model = None, timeout = None, responseLanguage = None\<rparr>"
  have h: "provider ?config \<in> {str ''gemini-api'', str ''openai-api'', str ''anthropic-api''}"
    by simp
  from missing_credential[of ?config "\<lambda>call. Inl (HostError (str ''offline''))"
      "str ''coffee''", OF h] h
  show ?thesis by simp
qed

text \<open>With a key, the same dispatch does make its one outbound call.\<close>

lemma credential_present_calls:
  "snd (fetchWordJourney net w
          \<lparr>provider = str ''openai-api'', apiKey = Some (str ''sk''), baseUrl = None,
           model = None, timeout = None, responseLanguage = None\<rparr>)
     = [OpenAIChat w (str ''sk'') None]"
  by (simp add: fetchWordJourney_def fetchWordJourneyOpenAI_def str_def Let_def)

text \<open>An empty key is as good as none: \<^verbatim>\<open>!apiKey\<close> holds for the empty string.\<close>

lemma empty_credential:
  "fetchWordJourney net w
     \<lparr>provider = str ''gemini-api'', apiKey = Some [], baseUrl = None,
      model = None, timeout = None, responseLanguage = None\<rparr>
   = (Inl (Error (str ''API key required for Gemini API'')), [])"
  by (simp add: fetchWordJourney_def)

lemma mockData_get_Journey:
  "mockData_get key = Some (Journey j) \<Longrightarrow> j = coffee \<or> j = tea"
  by (auto simp: mockData_get_def mockData_def split: option.splits if_splits)

lemma mock_tea: "fetchWordJourneyMock (str ''Tea'') = Inr (Journey tea)"
  by (simp add: fetchWordJourneyMock_def mockData_get_def mockData_def toLowerCase_def
      lowerUnit_def str_def)

text \<open>
  Claim C6, as the code has it. Every \<^verbatim>\<open>WordJourney\<close> the mock backend
  returns has waypoint \<open>k\<close> carrying order \<open>k\<close>, from 1 on. (The adapters
  that parse a model's answer return the parsed object as it is.)
\<close>

theorem mock_orders:
  assumes "fetchWordJourneyMock w = Inr (Journey j)"
  shows "map order (journey j) = map int [1..<Suc (length (journey j))]"
proof -
  from assms have "mockData_get (toLowerCase w) = Some (Journey j)"
    by (auto simp: fetchWordJourneyMock_def split: option.splits)
  then have "j = coffee \<or> j = tea" by (rule mockData_get_Journey)
  moreover have "map order (journey coffee) = map int [1..<Suc (length (journey coffee))]"
    by (simp add: coffee_def coffee_journey_def upt_rec)
  moreover have "map order (journey tea) = map int [1..<Suc (length (journey tea))]"
    by (simp add: tea_def tea_journey_def upt_rec)
  ultimately show ?thesis by auto
qed

theorem mock_orders_witness:
  "fetchWordJourneyMock (str ''Tea'') = Inr (Journey tea) \<and>
   map order (journey tea) = [1, 2, 3]"
  using mock_orders[OF mock_tea]
  by (simp add: mock_tea tea_def tea_journey_def upt_rec)

text \<open>
  The CLI-agent adapter, given a relay answer whose output is
  \<^verbatim>\<open>{"journey":[{"order":2},{"order":1}]}\<close>, returns that object: the
  orders of its waypoints are 2, 1.
\<close>

theorem adapter_orders_counterexample:
  \<open>fetchWordJourneyCLI
      (\<lambda>call. Inr \<lparr>ok = True, statusText = str ''OK'', errorMessage = None,
                    content = Some (str ''{"journey":[{"order":2},{"order":1}]}'')\<rparr>)
      (str ''tea'') (str ''gemini'') 60 None
    = (Inr (Parsed (JObject [(str ''journey'',
              JArray [JObject [(str ''order'', JNumber 2)],
                      JObject [(str ''order'', JNumber 1)]])])),
       [CliAgentPost (str ''tea'') (str ''gemini'') 60 None]) \<and>
   waypointOrders (Parsed (JObject [(str ''journey'',
              JArray [JObject [(str ''order'', JNumber 2)],
                      JObject [(str ''order'', JNumber 1)]])]))
    = Some [2, 1]\<close>
  by code_simp

text \<open>
  Claim C7. The mock backend answers \<^verbatim>\<open>coffee\<close> with the coffee entry:
  its origin is Mokha, Yemen (country code YE) in the 15th Century, and its
  journey has four waypoints with orders 1 to 4, the last being London,
  England (GB) in the 17th Century, reached by sea.
\<close>

theorem mock_coffee:
  "fetchWordJourneyMock (str ''coffee'') = Inr (Journey coffee) \<and>
   name (origin.location (origin coffee)) = str ''Mokha, Yemen'' \<and>
   countryCode (origin.location (origin coffee)) = str ''YE'' \<and>
   origin.century (origin coffee) = str ''15th Century'' \<and>
   length (journey coffee) = 4 \<and>
   map order (journey coffee) = [1, 2, 3, 4] \<and>
   name (journeyStep.location (last (journey coffee))) = str ''London, England'' \<and>
   countryCode (journeyStep.location (last (journey coffee))) = str ''GB'' \<and>
   journeyStep.century (last (journey coffee)) = str ''17th Century'' \<and>
   routeType (last (journey coffee)) = sea"
proof -
  have "toLowerCase (str ''coffee'') = str ''coffee''"
    by (simp add: toLowerCase_def lowerUnit_def str_def)
  then have "fetchWordJourneyMock (str ''coffee'') = Inr (Journey coffee)"
    by (simp add: fetchWordJourneyMock_def mockData_get_def mockData_def)
  then show ?thesis
    by (simp add: coffee_def coffee_origin_def coffee_journey_def)
qed

subsection \<open>The default branch\<close>

lemma unknown_provider_mock:
  "provider config \<notin> set knownProviders \<Longrightarrow>
   fetchWordJourney net w config = (fetchWordJourneyMock w, [])"
  by (simp add: fetchWordJourney_def knownProviders_def)

lemma mock_case_insensitive:
  "fetchWordJourneyMock (str ''Coffee'') = Inr (Journey coffee)"
  "fetchWordJourneyMock (str ''COFFEE'') = Inr (Journey coffee)"
  "fetchWordJourneyMock (str ''TEA'') = Inr (Journey tea)"
  by (simp_all add: fetchWordJourneyMock_def mockData_get_def mockData_def toLowerCase_def
      lowerUnit_def str_def)

lemma lowerUnit_not_upper: "\<not> (65 \<le> lowerUnit c \<and> lowerUnit c \<le> 90)"
  by (auto simp: lowerUnit_def)

lemma toLowerCase_no_upper: "c \<in> set (toLowerCase w) \<Longrightarrow> \<not> (65 \<le> c \<and> c \<le> 90)"
  using lowerUnit_not_upper by (auto simp: toLowerCase_def)

lemma mockData_get_None:
  assumes "key \<notin> {str ''coffee'', str ''tea''}" and "key \<notin> set objectPrototypeKeys"
  shows "mockData_get key = None"
  using assms by (simp add: mockData_get_def mockData_def)

text \<open>
  The mock backend throws for every word whose lower-case form is none of
  \<^verbatim>\<open>coffee\<close>, \<^verbatim>\<open>tea\<close>, \<^verbatim>\<open>constructor\<close> and \<^verbatim>\<open>__proto__\<close>: the other
  members of \<^verbatim>\<open>Object.prototype\<close> have a capital letter in their name,
  which no lower-cased word has.
\<close>

lemma mock_fails:
  assumes "toLowerCase w \<notin>
             {str ''coffee'', str ''tea'', str ''constructor'', str ''__proto__''}"
  shows "fetchWordJourneyMock w =
           Inl (Error (str ''Mock data not available for '' @ [34] @ w @ [34] @
                       str ''. Use a real AI provider or try: coffee, tea''))"
proof -
  have "toLowerCase w \<notin> set objectPrototypeKeys"
  proof
    assume k: "toLowerCase w \<in> set objectPrototypeKeys"
    have "\<forall>key \<in> set objectPrototypeKeys.
            key = str ''constructor'' \<or> key = str ''__proto__'' \<or>
            (\<exists>c \<in> set key. 65 \<le> c \<and> c \<le> 90)"
      by (simp add: objectPrototypeKeys_def str_def)
    with k assms toLowerCase_no_upper[of _ w] show False by auto
  qed
  with assms have "mockData_get (toLowerCase w) = None"
    by (intro mockData_get_None) auto
  then show ?thesis by (simp add: fetchWordJourneyMock_def)
qed

text \<open>
  Claim C10, at the word \<^verbatim>\<open>constructor\<close>. A provider outside the eight
  known ones reaches the mock backend, and the mock backend does not throw
  for this word, which is neither coffee nor tea: the lookup
  \<^verbatim>\<open>mockData[normalizedWord]\<close> finds the member \<^verbatim>\<open>constructor\<close> that the
  table inherits from \<^verbatim>\<open>Object.prototype\<close>, and returns it.
\<close>

theorem mock_inherited_key:
  "fetchWordJourneyMock (str ''constructor'') = Inr (Builtin (str ''constructor'')) \<and>
   fetchWordJourney net (str ''constructor'')
     \<lparr>provider = str ''mock'', apiKey = None, baseUrl = None, model = None,
      timeout = None, responseLanguage = None\<rparr>
   = (Inr (Builtin (str ''constructor'')), [])"
proof -
  have "toLowerCase (str ''constructor'') = str ''constructor''"
    by (simp add: toLowerCase_def lowerUnit_def str_def)
  then have m: "fetchWordJourneyMock (str ''constructor'') = Inr (Builtin (str ''constructor''))"
    by (simp add: fetchWordJourneyMock_def mockData_get_def mockData_def
        objectPrototypeKeys_def str_def)
  have "fetchWordJourney net (str ''constructor'')
     \<lparr>provider = str ''mock'', apiKey = None, baseUrl = None, model = None,
      timeout = None, responseLanguage = None\<rparr> = (fetchWordJourneyMock (str ''constructor''), [])"
    by (simp add: fetchWordJourney_def str_def)
  with m show ?thesis by simp
qed

section \<open>Playback\<close>

lemma apply_op_journeyData: "journeyData (apply_op s x) = journeyData s"
  by (cases x) (auto simp: handleNext_def handlePrev_def handleReset_def split: option.splits)

lemma apply_op_in_range:
  assumes "journeyData s = Some d"
    and "- 1 \<le> activeWaypointIndex s"
    and "activeWaypointIndex s \<le> int (length (journey d)) - 1"
  shows "- 1 \<le> activeWaypointIndex (apply_op s x) \<and>
         activeWaypointIndex (apply_op s x) \<le> int (length (journey d)) - 1"
  using assms
  by (cases x) (auto simp: handleNext_def handlePrev_def handleReset_def)

lemma run_ops_in_range:
  assumes "journeyData s = Some d"
    and "- 1 \<le> activeWaypointIndex s"
    and "activeWaypointIndex s \<le> int (length (journey d)) - 1"
  shows "- 1 \<le> activeWaypointIndex (run_ops s ops) \<and>
         activeWaypointIndex (run_ops s ops) \<le> int (length (journey d)) - 1"
  using assms unfolding run_ops_def
proof (induction ops arbitrary: s)
  case Nil
  then show ?case by simp
next
  case (Cons x ops)
  have "journeyData (apply_op s x) = Some d"
    using Cons.prems(1) by (simp add: apply_op_journeyData)
  moreover have "- 1 \<le> activeWaypointIndex (apply_op s x) \<and>
         activeWaypointIndex (apply_op s x) \<le> int (length (journey d)) - 1"
    using Cons.prems by (rule apply_op_in_range)
  ultimately show ?case
    using Cons.IH[of "apply_op s x"] by simp
qed

lemma length_coffee_journey: "length (journey coffee) = 4"
  by (simp add: coffee_def coffee_journey_def)

text \<open>
  Claim C9. With a journey loaded and the index at its reset value \<open>-1\<close>,
  the index stays between \<open>-1\<close> and \<^verbatim>\<open>journey.length - 1\<close> after any
  sequence of \<^verbatim>\<open>handleNext\<close>, \<^verbatim>\<open>handlePrev\<close> and \<^verbatim>\<open>handleReset\<close>.
\<close>

theorem playback_index_in_range:
  assumes "journeyData s = Some d" and "activeWaypointIndex s = - 1"
  shows "- 1 \<le> activeWaypointIndex (run_ops s ops) \<and>
         activeWaypointIndex (run_ops s ops) \<le> int (length (journey d)) - 1"
  using assms by (intro run_ops_in_range) auto

theorem playback_index_in_range_witness:
  "journeyData \<lparr>journeyData = Some coffee, activeWaypointIndex = - 1, isPlaying = False\<rparr>
     = Some coffee \<and>
   activeWaypointIndex
     \<lparr>journeyData = Some coffee, activeWaypointIndex = - 1, isPlaying = False\<rparr> = - 1 \<and>
   - 1 \<le> activeWaypointIndex
            (run_ops \<lparr>journeyData = Some coffee, activeWaypointIndex = - 1, isPlaying = False\<rparr>
               [Next, Next, Next, Next, Next, Prev, Reset, Prev, Next]) \<and>
   activeWaypointIndex
     (run_ops \<lparr>journeyData = Some coffee, activeWaypointIndex = - 1, isPlaying = False\<rparr>
        [Next, Next, Next, Next, Next, Prev, Reset, Prev, Next])
     \<le> int (length (journey coffee)) - 1 \<and>
   activeWaypointIndex
     (run_ops \<lparr>journeyData = Some coffee, activeWaypointIndex = - 1, isPlaying = False\<rparr>
        [Next, Next, Next, Next, Next]) = 3"
  using playback_index_in_range[of
      "\<lparr>journeyData = Some coffee, activeWaypointIndex = - 1, isPlaying = False\<rparr>"
      coffee "[Next, Next, Next, Next, Next, Prev, Reset, Prev, Next]"]
  by (simp add: run_ops_def handleNext_def length_coffee_journey)

text \<open>The clamps of the claim, one handler at a time.\<close>

lemma handleNext_clamps:
  "journeyData s = Some d \<Longrightarrow> activeWaypointIndex s = int (length (journey d)) - 1 \<Longrightarrow>
   activeWaypointIndex (handleNext s) = int (length (journey d)) - 1"
  by (simp add: handleNext_def)

lemma handlePrev_clamps:
  "activeWaypointIndex s = - 1 \<Longrightarrow> activeWaypointIndex (handlePrev s) = - 1"
  by (simp add: handlePrev_def)

lemma handleReset_index: "activeWaypointIndex (handleReset s) = - 1"
  by (simp add: handleReset_def)

section \<open>The relay and the subprocess\<close>

lemma post_route:
  assumes "method req = str ''POST''" and "url req = str ''/api/cli-agent''"
  shows "server h req = Inr (cliAgentRoute h (payload req))"
proof -
  have "str ''POST'' \<noteq> str ''OPTIONS''" "str ''POST'' \<noteq> str ''GET''"
    by (simp_all add: str_def)
  with assms show ?thesis by (simp add: server_def)
qed

lemma cliAgentRoute_Close:
  assumes "JSON_parse body = Some v" and "v \<noteq> JNull"
    and "spawn h (member v (str ''model'')) (member v (str ''prompt''))
           (case member v (str ''timeout'') of None \<Rightarrow> JNumber 60 | Some t \<Rightarrow> t)
         = Close exitCode output errorOutput"
  shows "cliAgentRoute h body = onClose exitCode output errorOutput"
  using assms by (cases v) (simp_all add: cliAgentRoute_def)

text \<open>
  Claim C2, as the code has it. When the spawned process ends with a non-zero
  exit status, the relay answers 500 with the error
  \<^verbatim>\<open>Process exited with code N\<close> and the standard error as output if the
  process wrote nothing to its standard output, and answers 200 with the
  standard output otherwise.
\<close>

theorem relay_nonzero_exit:
  assumes "method req = str ''POST''" and "url req = str ''/api/cli-agent''"
    and "JSON_parse (payload req) = Some v" and "v \<noteq> JNull"
    and "spawn h (member v (str ''model'')) (member v (str ''prompt''))
           (case member v (str ''timeout'') of None \<Rightarrow> JNumber 60 | Some t \<Rightarrow> t)
         = Close (Some n) output errorOutput"
    and "n \<noteq> 0"
  shows "server h req =
           Inr (if output = []
                then \<lparr>statusCode = 500,
                      sent = FailureJson (Error (str ''Process exited with code '' @ decimal n))
                               errorOutput\<rparr>
                else \<lparr>statusCode = 200, sent = OutputJson output\<rparr>)"
  using assms(6)
  by (simp only: post_route[OF assms(1,2)] cliAgentRoute_Close[OF assms(3,4,5)])
     (simp add: onClose_def)

theorem relay_nonzero_exit_witness:
  \<open>JSON_parse (str ''{"model":"gemini","prompt":"hi"}'')
     = Some (JObject [(str ''model'', JString (str ''gemini'')),
                      (str ''prompt'', JString (str ''hi''))]) \<and>
   server \<lparr>execSync = (\<lambda>c t. Inr []),
           spawn = (\<lambda>m p t. Close (Some 2) [] (str ''boom'')),
           fetchTags = (\<lambda>u. TagsStatus 500)\<rparr>
          \<lparr>method = str ''POST'', url = str ''/api/cli-agent'',
           payload = str ''{"model":"gemini","prompt":"hi"}''\<rparr>
    = Inr \<lparr>statusCode = 500,
           sent = FailureJson (Error (str ''Process exited with code 2'')) (str ''boom'')\<rparr>\<close>
proof -
  let ?h = "\<lparr>execSync = (\<lambda>c t. Inr []),
           spawn = (\<lambda>m p t. Close (Some 2) [] (str ''boom'')),
           fetchTags = (\<lambda>u. TagsStatus 500)\<rparr>"
  let ?req = \<open>\<lparr>method = str ''POST'', url = str ''/api/cli-agent'',
           payload = str ''{"model":"gemini","prompt":"hi"}''\<rparr>\<close>
  let ?v = "JObject [(str ''model'', JString (str ''gemini'')),
                     (str ''prompt'', JString (str ''hi''))]"
  have p: "JSON_parse (payload ?req) = Some ?v" by code_simp
  have d: "str ''Process exited with code '' @ decimal 2 = str ''Process exited with code 2''"
    by code_simp
  show ?thesis
    using relay_nonzero_exit[of ?req ?v ?h 2 "[]" "str ''boom''", OF _ _ p] d p
    by simp
qed

text \<open>
  A process that exits with status 1 after writing \<^verbatim>\<open>partial\<close> to its
  standard output is answered with 200.
\<close>

theorem relay_nonzero_exit_counterexample:
  \<open>server \<lparr>execSync = (\<lambda>c t. Inr []),
           spawn = (\<lambda>m p t. Close (Some 1) (str ''partial'') (str ''boom'')),
           fetchTags = (\<lambda>u. TagsStatus 500)\<rparr>
          \<lparr>method = str ''POST'', url = str ''/api/cli-agent'',
           payload = str ''{"model":"gemini","prompt":"hi"}''\<rparr>
    = Inr \<lparr>statusCode = 200, sent = OutputJson (str ''partial'')\<rparr>\<close>
  by code_simp

text \<open>
  Claim C4, as the code has it. When \<^verbatim>\<open>execSync\<close> fails because the
  process was killed at the timeout, \<^verbatim>\<open>callCliAgent\<close> rethrows the error
  only if no standard output was captured (absent or empty); output captured
  before the kill is returned as the result. In the relay, a process killed
  at the timeout closes with code \<^verbatim>\<open>null\<close>, and the listener answers 500
  only if the captured standard output is empty, and 200 with the partial
  output otherwise.
\<close>

theorem timeout_salvage:
  assumes "sh (PythonCliCaller mdl w secs) (Some ((secs + 10) * 1000)) = Inl err"
    and "timed_out err"
  shows "callCliAgent sh w mdl secs =
           (case stdout err of
              None \<Rightarrow> Inl (HostError (message err))
            | Some out \<Rightarrow> if out = [] then Inl (HostError (message err)) else Inr out) \<and>
         onClose None output errorOutput =
           (if output = []
            then \<lparr>statusCode = 500,
                  sent = FailureJson (Error (str ''Process exited with code null'')) errorOutput\<rparr>
            else \<lparr>statusCode = 200, sent = OutputJson output\<rparr>)"
proof -
  have "str ''Process exited with code '' @ str ''null'' = str ''Process exited with code null''"
    by (simp add: str_def)
  then show ?thesis
    using assms(1) by (simp add: callCliAgent_def onClose_def split: option.splits)
qed

theorem timeout_salvage_witness:
  "timed_out \<lparr>code = Some (str ''ETIMEDOUT''), status = None,
              stdout = Some [], message = str ''spawnSync /bin/sh ETIMEDOUT''\<rparr> \<and>
   callCliAgent
     (\<lambda>c t. Inl \<lparr>code = Some (str ''ETIMEDOUT''), status = None,
                  stdout = Some [], message = str ''spawnSync /bin/sh ETIMEDOUT''\<rparr>)
     (str ''tea'') (str ''gemini'') 60
   = Inl (HostError (str ''spawnSync /bin/sh ETIMEDOUT'')) \<and>
   onClose None [] (str ''killed'')
   = \<lparr>statusCode = 500,
      sent = FailureJson (Error (str ''Process exited with code null'')) (str ''killed'')\<rparr>"
proof -
  let ?err = "\<lparr>code = Some (str ''ETIMEDOUT''), status = None,
              stdout = Some [], message = str ''spawnSync /bin/sh ETIMEDOUT''\<rparr>"
  have t: "timed_out ?err" by (simp add: timed_out_def)
  show ?thesis
    using timeout_salvage[of "\<lambda>c t. Inl ?err" "str ''gemini''" "str ''tea''" 60 ?err
        "[]" "str ''killed''", OF refl t] t
    by simp
qed

text \<open>
  The process writes its whole answer \<^verbatim>\<open>{"word":"tea"}\<close> and then hangs
  until \<^verbatim>\<open>execSync\<close> kills it at the timeout: \<^verbatim>\<open>callCliAgent\<close> returns
  the captured output and \<^verbatim>\<open>main\<close> goes on to display it.
\<close>

theorem timeout_partial_output_counterexample:
  \<open>timed_out \<lparr>code = Some (str ''ETIMEDOUT''), status = None,
              stdout = Some (str ''{"word":"tea"}''),
              message = str ''spawnSync /bin/sh ETIMEDOUT''\<rparr> \<and>
   callCliAgent
     (\<lambda>c t. Inl \<lparr>code = Some (str ''ETIMEDOUT''), status = None,
                  stdout = Some (str ''{"word":"tea"}''),
                  message = str ''spawnSync /bin/sh ETIMEDOUT''\<rparr>)
     (str ''tea'') (str ''gemini'') 60
   = Inr (str ''{"word":"tea"}'') \<and>
   main
     (\<lambda>c t. Inl \<lparr>code = Some (str ''ETIMEDOUT''), status = None,
                  stdout = Some (str ''{"word":"tea"}''),
                  message = str ''spawnSync /bin/sh ETIMEDOUT''\<rparr>)
     (str ''tea'') (str ''gemini'') 60
   = Inr (JObject [(str ''word'', JString (str ''tea''))])\<close>
  by code_simp

text \<open>
  Claim C8. \<^verbatim>\<open>checkCliInstalled\<close> never throws: it returns a boolean for
  every host, \<^verbatim>\<open>false\<close> when the presence check fails; and the route
  \<^verbatim>\<open>GET /api/cli-agents/check\<close> answers 200 with one entry for each of the
  four agents, \<^verbatim>\<open>installed\<close> being false for those whose check fails.
\<close>

theorem availability_check:
  "(\<exists>b. checkCliInstalled h nm = Inr b) \<and>
   (isl (execSync h (Which nm) None) \<longrightarrow> checkCliInstalled h nm = Inr False) \<and>
   server h \<lparr>method = str ''GET'', url = str ''/api/cli-agents/check'', payload = p\<rparr> =
     Inr \<lparr>statusCode = 200,
          sent = AgentsJson
            [(str ''gemini'', \<not> isl (execSync h (Which (str ''gemini'')) None)),
             (str ''claude'', \<not> isl (execSync h (Which (str ''claude'')) None)),
             (str ''codex'', \<not> isl (execSync h (Which (str ''codex'')) None)),
             (str ''qwen'', \<not> isl (execSync h (Which (str ''qwen'')) None))]\<rparr>"
proof -
  have c: "\<And>n. checkCliInstalled h n = Inr (\<not> isl (execSync h (Which n) None))"
    by (simp add: checkCliInstalled_def split: sum.splits)
  have "str ''GET'' \<noteq> str ''OPTIONS''" by (simp add: str_def)
  then show ?thesis
    by (simp add: c server_def CLI_AGENTS_def)
qed

theorem availability_check_witness:
  "isl (execSync
         \<lparr>execSync = (\<lambda>c t. if c = Which (str ''gemini'') then Inr (str ''/usr/bin/gemini'')
                              else Inl \<lparr>code = None, status = Some 1, stdout = None,
                                        message = str ''Command failed''\<rparr>),
          spawn = (\<lambda>m p t. ErrorEvent (str ''ENOENT'')),
          fetchTags = (\<lambda>u. TagsStatus 500)\<rparr> (Which (str ''qwen'')) None) \<and>
   checkCliInstalled
     \<lparr>execSync = (\<lambda>c t. if c = Which (str ''gemini'') then Inr (str ''/usr/bin/gemini'')
                          else Inl \<lparr>code = None, status = Some 1, stdout = None,
                                    message = str ''Command failed''\<rparr>),
      spawn = (\<lambda>m p t. ErrorEvent (str ''ENOENT'')),
      fetchTags = (\<lambda>u. TagsStatus 500)\<rparr> (str ''qwen'') = Inr False \<and>
   server
     \<lparr>execSync = (\<lambda>c t. if c = Which (str ''gemini'') then Inr (str ''/usr/bin/gemini'')
                          else Inl \<lparr>code = None, status = Some 1, stdout = None,
                                    message = str ''Command failed''\<rparr>),
      spawn = (\<lambda>m p t. ErrorEvent (str ''ENOENT'')),
      fetchTags = (\<lambda>u. TagsStatus 500)\<rparr>
     \<lparr>method = str ''GET'', url = str ''/api/cli-agents/check'', payload = []\<rparr>
   = Inr \<lparr>statusCode = 200,
          sent = AgentsJson [(str ''gemini'', True), (str ''claude'', False),
                             (str ''codex'', False), (str ''qwen'', False)]\<rparr>"
proof -
  let ?h = "\<lparr>execSync = (\<lambda>c t. if c = Which (str ''gemini'') then Inr (str ''/usr/bin/gemini'')
                          else Inl \<lparr>code = None, status = Some 1, stdout = None,
                                    message = str ''Command failed''\<rparr>),
      spawn = (\<lambda>m p t. ErrorEvent (str ''ENOENT'')),
      fetchTags = (\<lambda>u. TagsStatus 500)\<rparr>"
  have q: "isl (execSync ?h (Which (str ''qwen'')) None)" by (simp add: str_def)
  have g: "\<not> isl (execSync ?h (Which (str ''gemini'')) None)" by simp
  have c: "isl (execSync ?h (Which (str ''claude'')) None)" by (simp add: str_def)
  have x: "isl (execSync ?h (Which (str ''codex'')) None)" by (simp add: str_def)
  from availability_check[of ?h "str ''qwen''" "[]"] q g c x
  show ?thesis by simp
qed

end
